theory Spec2Isabelle
  imports Complex_Main
begin

section \<open>JavaScript Number values\<close>

text \<open>
  The calculator of \<^verbatim>\<open>script.js\<close> keeps \<^verbatim>\<open>previousValue\<close> as a JavaScript Number and
  converts between Numbers and display strings with \<^verbatim>\<open>Number(s)\<close>, \<^verbatim>\<open>String(x)\<close> and
  \<^verbatim>\<open>x.toFixed(10)\<close>. A Number is an IEEE 754 binary64 value: NaN, an infinity, or a
  finite value with a sign. A finite value is kept here as its sign (\<open>True\<close> is negative,
  so that \<open>-0\<close> and \<open>+0\<close> differ) and its exact magnitude, a rational; every operation
  rounds its exact result to the nearest binary64 value, ties to even.
\<close>

datatype number = NaN | Infinity bool | Finite bool rat

definition pow2 :: "int \<Rightarrow> rat" where
  "pow2 i = (if 0 \<le> i then 2 ^ nat i else 1 / 2 ^ nat (- i))"

definition pow10 :: "int \<Rightarrow> rat" where
  "pow10 i = (if 0 \<le> i then 10 ^ nat i else 1 / 10 ^ nat (- i))"

text \<open>\<open>ilog b n\<close> is the floor of the logarithm of \<open>n \<ge> 1\<close> to the base \<open>b \<ge> 2\<close>.\<close>

function ilog :: "int \<Rightarrow> int \<Rightarrow> nat" where
  "ilog b n = (if b < 2 \<or> n < b then 0 else Suc (ilog b (n div b)))"
  by pat_completeness auto
termination
proof (relation "measure (\<lambda>(b, n). nat n)")
  show "wf (measure (\<lambda>(b, n). nat n))" by simp
next
  fix b n :: int
  assume "\<not> (b < 2 \<or> n < b)"
  then have b: "2 \<le> b" and n: "b \<le> n" by auto
  have "n div b < n" using b n by (simp add: int_div_less_self)
  moreover have "0 < n" using b n by linarith
  ultimately show "((b, n div b), (b, n)) \<in> measure (\<lambda>(b, n). nat n)" by simp
qed

declare ilog.simps [simp del]

text \<open>The floor of the logarithm of a positive rational, also below one.\<close>

definition ilog_rat :: "int \<Rightarrow> rat \<Rightarrow> int" where
  "ilog_rat b x =
     (if 1 \<le> x then int (ilog b \<lfloor>x\<rfloor>)
      else let t = ilog b \<lfloor>1 / x\<rfloor>
           in if 1 \<le> x * of_int b ^ t then - int t else - int t - 1)"

definition round_half_even :: "rat \<Rightarrow> int" where
  "round_half_even r =
     (let f = \<lfloor>r\<rfloor>; d = r - of_int f
      in if d < 1 / 2 then f
         else if 1 / 2 < d then f + 1
         else if even f then f else f + 1)"

text \<open>
  Rounding a magnitude \<open>q \<ge> 0\<close> to binary64: 53 significant bits, the unit in the last
  place never below \<open>2 ^ (- 1074)\<close> (subnormals), and overflow to infinity when the
  rounded value reaches \<open>2 ^ 1024\<close> (its binary logarithm is then at least 1024).
\<close>

definition round_double :: "bool \<Rightarrow> rat \<Rightarrow> number" where
  "round_double sg q =
     (if q = 0 then Finite sg 0
      else let e = ilog_rat 2 q;
               u = pow2 (max e (- 1022) - 52);
               v = of_int (round_half_even (q / u)) * u
           in if 1024 \<le> ilog_rat 2 v then Infinity sg else Finite sg v)"

definition signed :: "bool \<Rightarrow> rat \<Rightarrow> rat" where
  "signed sg q = (if sg then - q else q)"

fun js_add :: "number \<Rightarrow> number \<Rightarrow> number" where
  "js_add NaN _ = NaN"
| "js_add _ NaN = NaN"
| "js_add (Infinity s) (Infinity t) = (if s = t then Infinity s else NaN)"
| "js_add (Infinity s) (Finite _ _) = Infinity s"
| "js_add (Finite _ _) (Infinity t) = Infinity t"
| "js_add (Finite s a) (Finite t b) =
     (let x = signed s a + signed t b
      in if x = 0 then Finite (s \<and> t) 0 else round_double (x < 0) \<bar>x\<bar>)"

fun js_neg :: "number \<Rightarrow> number" where
  "js_neg NaN = NaN"
| "js_neg (Infinity s) = Infinity (\<not> s)"
| "js_neg (Finite s a) = Finite (\<not> s) a"

definition js_sub :: "number \<Rightarrow> number \<Rightarrow> number" where
  "js_sub x y = js_add x (js_neg y)"

fun js_mul :: "number \<Rightarrow> number \<Rightarrow> number" where
  "js_mul NaN _ = NaN"
| "js_mul _ NaN = NaN"
| "js_mul (Infinity s) (Infinity t) = Infinity (s \<noteq> t)"
| "js_mul (Infinity s) (Finite t b) = (if b = 0 then NaN else Infinity (s \<noteq> t))"
| "js_mul (Finite s a) (Infinity t) = (if a = 0 then NaN else Infinity (s \<noteq> t))"
| "js_mul (Finite s a) (Finite t b) = round_double (s \<noteq> t) (a * b)"

fun js_div :: "number \<Rightarrow> number \<Rightarrow> number" where
  "js_div NaN _ = NaN"
| "js_div _ NaN = NaN"
| "js_div (Infinity s) (Infinity t) = NaN"
| "js_div (Infinity s) (Finite t b) = Infinity (s \<noteq> t)"
| "js_div (Finite s a) (Infinity t) = Finite (s \<noteq> t) 0"
| "js_div (Finite s a) (Finite t b) =
     (if b = 0 then (if a = 0 then NaN else Infinity (s \<noteq> t))
      else round_double (s \<noteq> t) (a / b))"

text \<open>\<^verbatim>\<open>x === 0\<close> holds for both zeros and for nothing else.\<close>

fun is_zero :: "number \<Rightarrow> bool" where
  "is_zero (Finite _ q) = (q = 0)"
| "is_zero _ = False"

section \<open>Numbers and strings\<close>

text \<open>
  The display strings of the calculator are ASCII, so a JavaScript string is a list of
  characters and \<^verbatim>\<open>s.length\<close> is the length of the list.
\<close>

definition is_digit :: "char \<Rightarrow> bool" where
  "is_digit c = (c \<in> set ''0123456789'')"

definition digit_val :: "char \<Rightarrow> int" where
  "digit_val c = int (of_char c) - 48"

definition digits_val :: "string \<Rightarrow> int" where
  "digits_val cs = foldl (\<lambda>a c. 10 * a + digit_val c) 0 cs"

definition parse_uint :: "string \<Rightarrow> int option" where
  "parse_uint cs = (if cs \<noteq> [] \<and> list_all is_digit cs then Some (digits_val cs) else None)"

text \<open>The exponent part after \<^verbatim>\<open>e\<close> or \<^verbatim>\<open>E\<close>: an optional sign and at least one digit.\<close>

definition parse_exponent :: "string \<Rightarrow> int option" where
  "parse_exponent cs =
     (case cs of
        [] \<Rightarrow> None
      | c # r \<Rightarrow>
          if c = CHR ''+'' then parse_uint r
          else if c = CHR ''-'' then map_option uminus (parse_uint r)
          else parse_uint cs)"

text \<open>
  An unsigned decimal literal: digits, an optional point with optional digits (at least
  one digit before or after the point), an optional exponent. The result is its exact
  value.
\<close>

definition parse_unsigned_decimal :: "string \<Rightarrow> rat option" where
  "parse_unsigned_decimal cs =
     (let ip = takeWhile is_digit cs;
          r1 = dropWhile is_digit cs;
          dot = (r1 \<noteq> [] \<and> hd r1 = CHR ''.'');
          fp = (if dot then takeWhile is_digit (tl r1) else []);
          r2 = (if dot then dropWhile is_digit (tl r1) else r1);
          ex = (case r2 of
                  [] \<Rightarrow> Some 0
                | c # r \<Rightarrow> if c = CHR ''e'' \<or> c = CHR ''E'' then parse_exponent r else None)
      in if ip = [] \<and> fp = [] then None
         else case ex of
                None \<Rightarrow> None
              | Some e \<Rightarrow> Some (of_int (digits_val (ip @ fp)) * pow10 (e - int (length fp))))"

text \<open>Literals with a radix prefix: \<^verbatim>\<open>0x\<close>, \<^verbatim>\<open>0o\<close>, \<^verbatim>\<open>0b\<close>, in either case, never signed.\<close>

definition radix_digit :: "char \<Rightarrow> int option" where
  "radix_digit c =
     (let n = int (of_char c)
      in if 48 \<le> n \<and> n \<le> 57 then Some (n - 48)
         else if 97 \<le> n \<and> n \<le> 102 then Some (n - 87)
         else if 65 \<le> n \<and> n \<le> 70 then Some (n - 55)
         else None)"

definition parse_radix :: "int \<Rightarrow> string \<Rightarrow> int option" where
  "parse_radix b cs =
     (if cs \<noteq> [] \<and> list_all (\<lambda>c. case radix_digit c of None \<Rightarrow> False | Some d \<Rightarrow> d < b) cs
      then Some (foldl (\<lambda>a c. b * a + the (radix_digit c)) 0 cs)
      else None)"

definition parse_non_decimal :: "string \<Rightarrow> int option option" where
  "parse_non_decimal cs =
     (case cs of
        c0 # c1 # r \<Rightarrow>
          if c0 \<noteq> CHR ''0'' then None
          else if c1 = CHR ''x'' \<or> c1 = CHR ''X'' then Some (parse_radix 16 r)
          else if c1 = CHR ''o'' \<or> c1 = CHR ''O'' then Some (parse_radix 8 r)
          else if c1 = CHR ''b'' \<or> c1 = CHR ''B'' then Some (parse_radix 2 r)
          else None
      | _ \<Rightarrow> None)"

definition is_space :: "char \<Rightarrow> bool" where
  "is_space c = (of_char c \<in> {9, 10, 11, 12, 13, 32 :: nat})"

definition trim :: "string \<Rightarrow> string" where
  "trim cs = rev (dropWhile is_space (rev (dropWhile is_space cs)))"

text \<open>
  \<^verbatim>\<open>Number(s)\<close> on a string: surrounding white space (for ASCII strings: tab, line
  feed, vertical tab, form feed, carriage return and space) is dropped, the empty string
  is \<open>+0\<close>, a string that is no numeric literal is NaN, and a decimal literal is its
  exact value rounded to binary64.
\<close>

definition StringToNumber :: "string \<Rightarrow> number" where
  "StringToNumber str =
     (let t = trim str
      in if t = [] then Finite False 0
         else case parse_non_decimal t of
                Some None \<Rightarrow> NaN
              | Some (Some n) \<Rightarrow> round_double False (of_int n)
              | None \<Rightarrow>
                  (let sg = (hd t = CHR ''-'');
                       u = (if hd t = CHR ''+'' \<or> hd t = CHR ''-'' then tl t else t)
                   in if u = ''Infinity'' then Infinity sg
                      else (case parse_unsigned_decimal u of
                              None \<Rightarrow> NaN
                            | Some q \<Rightarrow> round_double sg q)))"

text \<open>The decimal digits of a non-negative integer, most significant first.\<close>

function dec_digits :: "int \<Rightarrow> string" where
  "dec_digits n =
     (if n < 10 then [''0123456789'' ! nat n]
      else dec_digits (n div 10) @ [''0123456789'' ! nat (n mod 10)])"
  by pat_completeness auto
termination
  by (relation "measure nat") auto

declare dec_digits.simps [simp del]

text \<open>
  \<^verbatim>\<open>String(x)\<close> writes a finite positive \<open>x\<close> with the least number \<open>k\<close> of significant
  digits \<open>s\<close> such that \<open>s * 10 ^ (n - k)\<close> still rounds to \<open>x\<close>. With \<open>k\<close> digits the only
  candidates are the two multiples of \<open>10 ^ (p + 1 - k)\<close> around \<open>x\<close>, where \<open>p\<close> is the
  decimal exponent of \<open>x\<close>; of two that both round to \<open>x\<close> the closer one is taken, and
  the even one if they are equally close.
\<close>

definition candidate :: "rat \<Rightarrow> int \<Rightarrow> nat \<Rightarrow> (int \<times> int) option" where
  "candidate x p k =
     (let sc = pow10 (int k - 1 - p);
          lo = \<lfloor>x * sc\<rfloor>;
          hi = lo + 1;
          vlo = of_int lo / sc;
          vhi = of_int hi / sc;
          oklo = (round_double False vlo = Finite False x);
          okhi = (round_double False vhi = Finite False x);
          uselo = (oklo \<and> (\<not> okhi \<or> x - vlo < vhi - x \<or> (x - vlo = vhi - x \<and> even lo)))
      in if uselo then Some (lo, p + 1)
         else if okhi then (if hi = 10 ^ k then Some (10 ^ (k - 1), p + 2) else Some (hi, p + 1))
         else None)"

text \<open>
  The search for the least \<open>k\<close>. Seventeen significant digits always identify a binary64
  value, so the search stops there with the nearest 17-digit decimal.
\<close>

function shortest :: "rat \<Rightarrow> int \<Rightarrow> nat \<Rightarrow> int \<times> int" where
  "shortest x p k =
     (if 17 \<le> k then (round_half_even (x * pow10 (16 - p)), p + 1)
      else case candidate x p k of
             Some r \<Rightarrow> r
           | None \<Rightarrow> shortest x p (Suc k))"
  by pat_completeness auto
termination
  by (relation "measure (\<lambda>(x, p, k). 17 - k)") auto

declare shortest.simps [simp del]

definition exponent_string :: "int \<Rightarrow> string" where
  "exponent_string e = (if e < 0 then ''-'' else ''+'') @ dec_digits \<bar>e\<bar>"

definition format_digits :: "string \<Rightarrow> int \<Rightarrow> string" where
  "format_digits ds n =
     (let k = int (length ds)
      in if k \<le> n \<and> n \<le> 21 then ds @ replicate (nat (n - k)) CHR ''0''
         else if 0 < n \<and> n \<le> 21 then take (nat n) ds @ ''.'' @ drop (nat n) ds
         else if - 6 < n \<and> n \<le> 0 then ''0.'' @ replicate (nat (- n)) CHR ''0'' @ ds
         else if k = 1 then ds @ ''e'' @ exponent_string (n - 1)
         else take 1 ds @ ''.'' @ drop 1 ds @ ''e'' @ exponent_string (n - 1))"

fun NumberToString :: "number \<Rightarrow> string" where
  "NumberToString NaN = ''NaN''"
| "NumberToString (Infinity sg) = (if sg then ''-Infinity'' else ''Infinity'')"
| "NumberToString (Finite sg q) =
     (if q = 0 then ''0''
      else let (s, n) = shortest q (ilog_rat 10 q) 1
           in (if sg then ''-'' else []) @ format_digits (dec_digits s) n)"

text \<open>
  \<^verbatim>\<open>x.toFixed(f)\<close>: the integer \<open>n\<close> nearest to \<open>x * 10 ^ f\<close> (the larger one of two), written
  with at least \<open>f + 1\<close> digits and a point before the last \<open>f\<close>; values from \<open>10 ^ 21\<close> on
  and the non-finite ones are written as \<^verbatim>\<open>String(x)\<close> writes them.
\<close>

fun toFixed :: "nat \<Rightarrow> number \<Rightarrow> string" where
  "toFixed f NaN = ''NaN''"
| "toFixed f (Infinity sg) = NumberToString (Infinity sg)"
| "toFixed f (Finite sg q) =
     (let s = (if sg \<and> 0 < q then ''-'' else [])
      in if 10 ^ 21 \<le> q then s @ NumberToString (Finite False q)
         else let n = \<lfloor>q * 10 ^ f + 1 / 2\<rfloor>;
                  m = dec_digits n;
                  m' = (if f \<noteq> 0 \<and> length m \<le> f then replicate (f + 1 - length m) CHR ''0'' @ m
                        else m);
                  k = length m'
              in if f = 0 then s @ m'
                 else s @ take (k - f) m' @ ''.'' @ drop (k - f) m')"

section \<open>The calculator state\<close>

text \<open>
  The four module-level variables of \<^verbatim>\<open>script.js\<close>. \<^verbatim>\<open>null\<close> is \<open>None\<close>.
\<close>

record state =
  currentInput :: string
  previousValue :: "number option"
  operator :: "string option"
  justEvaluated :: bool

definition init :: state where
  "init = \<lparr>currentInput = ''0'', previousValue = None, operator = None, justEvaluated = False\<rparr>"

text \<open>An operator is truthy when it is neither \<^verbatim>\<open>null\<close> nor the empty string.\<close>

definition truthy :: "string option \<Rightarrow> bool" where
  "truthy op = (case op of None \<Rightarrow> False | Some t \<Rightarrow> t \<noteq> [])"

subsection \<open>Helpers\<close>

text \<open>
  \<^verbatim>\<open>prettyOp\<close> returns the division sign, the multiplication sign and the minus sign
  (U+2212); they are written here as their UTF-8 bytes.
\<close>

definition prettyOp :: "string \<Rightarrow> string" where
  "prettyOp op =
     (if op = ''/'' then [char_of (195 :: nat), char_of (183 :: nat)]
      else if op = ''*'' then [char_of (195 :: nat), char_of (151 :: nat)]
      else if op = ''-'' then [char_of (226 :: nat), char_of (136 :: nat), char_of (146 :: nat)]
      else op)"

text \<open>\<^verbatim>\<open>render\<close> gives the two display lines: the top line and the bottom line.\<close>

definition render :: "state \<Rightarrow> string \<times> string" where
  "render s =
     (if previousValue s \<noteq> None \<and> truthy (operator s)
      then (NumberToString (the (previousValue s)) @ '' '' @ prettyOp (the (operator s)),
            currentInput s)
      else ([], currentInput s))"

text \<open>
  \<^verbatim>\<open>s.replace(/^0+(?=\d)/, "")\<close> removes the longest run of leading zeros that is followed
  by a digit: all of them when a digit follows the run, all but the last one when
  something else (or nothing) follows a run of at least two, and none otherwise.
\<close>

definition strip_leading_zeros :: "string \<Rightarrow> string" where
  "strip_leading_zeros s =
     (let z = takeWhile (\<lambda>c. c = CHR ''0'') s;
          r = dropWhile (\<lambda>c. c = CHR ''0'') s
      in if z = [] then s
         else if r \<noteq> [] \<and> is_digit (hd r) then r
         else if 2 \<le> length z then CHR ''0'' # r
         else s)"

definition normalizeNumberString :: "string \<Rightarrow> string" where
  "normalizeNumberString s =
     (if s = ''0'' \<or> take 2 s = ''0.'' then s else strip_leading_zeros s)"

definition clampLength :: "string \<Rightarrow> nat \<Rightarrow> string" where
  "clampLength s mx = (if length s \<le> mx then s else take mx s)"

definition inputToNumber :: "state \<Rightarrow> number" where
  "inputToNumber s = StringToNumber (currentInput s)"

text \<open>\<^verbatim>\<open>compute\<close> returns \<^verbatim>\<open>null\<close>, here \<open>None\<close>, for a division by zero.\<close>

definition compute :: "number \<Rightarrow> string \<Rightarrow> number \<Rightarrow> number option" where
  "compute a op b =
     (if op = ''+'' then Some (js_add a b)
      else if op = ''-'' then Some (js_sub a b)
      else if op = ''*'' then Some (js_mul a b)
      else if op = ''/'' then (if is_zero b then None else Some (js_div a b))
      else Some b)"

text \<open>\<^verbatim>\<open>+result.toFixed(10)\<close>: the result written with ten decimals and read back.\<close>

definition round10 :: "number \<Rightarrow> number" where
  "round10 r = StringToNumber (toFixed 10 r)"

subsection \<open>Input handlers\<close>

definition handleDigit :: "string \<Rightarrow> state \<Rightarrow> state" where
  "handleDigit d s =
     (if justEvaluated s then s\<lparr>currentInput := d, justEvaluated := False\<rparr>
      else s\<lparr>currentInput :=
               normalizeNumberString
                 (if currentInput s = ''0'' then d else clampLength (currentInput s @ d) 14)\<rparr>)"

definition handleDot :: "state \<Rightarrow> state" where
  "handleDot s =
     (if justEvaluated s then s\<lparr>currentInput := ''0.'', justEvaluated := False\<rparr>
      else if CHR ''.'' \<notin> set (currentInput s)
           then s\<lparr>currentInput := clampLength (currentInput s @ ''.'') 14\<rparr>
           else s)"

definition handleOperator :: "string \<Rightarrow> state \<Rightarrow> state" where
  "handleOperator op s =
     (let currVal = inputToNumber s;
          finish = (\<lambda>t. t\<lparr>operator := Some op, currentInput := ''0'', justEvaluated := False\<rparr>)
      in if previousValue s = None then finish (s\<lparr>previousValue := Some currVal\<rparr>)
         else if truthy (operator s) \<and> \<not> justEvaluated s
         then (case compute (the (previousValue s)) (the (operator s)) currVal of
                 None \<Rightarrow> s\<lparr>currentInput := ''Error'', previousValue := None, operator := None\<rparr>
               | Some result \<Rightarrow> finish (s\<lparr>previousValue := Some (round10 result)\<rparr>))
         else finish s)"

definition handleEquals :: "state \<Rightarrow> state" where
  "handleEquals s =
     (if previousValue s = None \<or> \<not> truthy (operator s) then s
      else let currVal = inputToNumber s;
               result = compute (the (previousValue s)) (the (operator s)) currVal
           in s\<lparr>currentInput :=
                   (case result of
                      None \<Rightarrow> ''Error''
                    | Some r \<Rightarrow> NumberToString (round10 r)),
                previousValue := None, operator := None, justEvaluated := True\<rparr>)"

definition handleClear :: "state \<Rightarrow> state" where
  "handleClear s =
     s\<lparr>currentInput := ''0'', previousValue := None, operator := None, justEvaluated := False\<rparr>"

definition handleDelete :: "state \<Rightarrow> state" where
  "handleDelete s =
     (if justEvaluated s then s\<lparr>currentInput := ''0'', justEvaluated := False\<rparr>
      else s\<lparr>currentInput :=
               normalizeNumberString
                 (if length (currentInput s) \<le> 1 then ''0''
                  else let c = butlast (currentInput s)
                       in if c \<noteq> [] \<and> last c = CHR ''.''
                          then (if butlast c = [] then ''0'' else butlast c)
                          else c)\<rparr>)"

definition handlePercent :: "state \<Rightarrow> state" where
  "handlePercent s =
     s\<lparr>currentInput :=
         clampLength (NumberToString (js_div (inputToNumber s) (Finite False 100))) 14\<rparr>"

definition handleSign :: "state \<Rightarrow> state" where
  "handleSign s =
     (if currentInput s = ''0'' then s
      else if currentInput s \<noteq> [] \<and> hd (currentInput s) = CHR ''-''
           then s\<lparr>currentInput := tl (currentInput s)\<rparr>
           else s\<lparr>currentInput := CHR ''-'' # currentInput s\<rparr>)"

subsection \<open>Input events\<close>

text \<open>
  The click and key listeners forward a digit only when it matches \<^verbatim>\<open>/^\d$/\<close> and an
  operator only when it is one of the four operator characters.
\<close>

datatype event =
  Digit string | Dot | Operator string | Equals | Clear | Delete | Percent | Sign

fun valid_event :: "event \<Rightarrow> bool" where
  "valid_event (Digit d) = (length d = 1 \<and> is_digit (hd d))"
| "valid_event (Operator op) = (op \<in> {''+'', ''-'', ''*'', ''/''})"
| "valid_event _ = True"

fun step :: "event \<Rightarrow> state \<Rightarrow> state" where
  "step (Digit d) s = handleDigit d s"
| "step Dot s = handleDot s"
| "step (Operator op) s = handleOperator op s"
| "step Equals s = handleEquals s"
| "step Clear s = handleClear s"
| "step Delete s = handleDelete s"
| "step Percent s = handlePercent s"
| "step Sign s = handleSign s"

text \<open>The state after a sequence of events, the first event of the list first.\<close>

definition run :: "event list \<Rightarrow> state \<Rightarrow> state" where
  "run es s = foldl (\<lambda>t e. step e t) s es"

inductive reachable :: "state \<Rightarrow> bool" where
  reachable_init: "reachable init"
| reachable_step: "reachable s \<Longrightarrow> valid_event e \<Longrightarrow> reachable (step e s)"

subsection \<open>The wording of the delete rule\<close>

text \<open>
  The delete rule in the words of the specification, without the final normalisation
  of leading zeros: remove the last character; a one-character input becomes \<open>0\<close>; a
  decimal point left at the end is removed too, and \<open>0\<close> stands in for an empty rest.
  It is compared with \<open>handleDelete\<close> below.
\<close>

definition spec_delete :: "string \<Rightarrow> string" where
  "spec_delete c =
     (if length c = 1 then ''0''
      else let t = butlast c
           in if t \<noteq> [] \<and> last t = CHR ''.'' then (if butlast t = [] then ''0'' else butlast t)
              else t)"

section \<open>Auxiliary facts\<close>

lemma StringToNumber_zero: "StringToNumber ''0'' = Finite False 0"
  by code_simp

lemma StringToNumber_Error: "StringToNumber ''Error'' = NaN"
  by code_simp

lemma compute_NaN: "compute a op NaN \<noteq> None"
  by (simp add: compute_def)

lemma length_strip_leading_zeros: "length (strip_leading_zeros s) \<le> length s"
proof -
  let ?z = "takeWhile (\<lambda>c. c = CHR ''0'') s" and ?r = "dropWhile (\<lambda>c. c = CHR ''0'') s"
  have parts: "length ?z + length ?r = length s"
    by (metis length_append takeWhile_dropWhile_id)
  show ?thesis
    using parts by (auto simp: strip_leading_zeros_def Let_def)
qed

lemma length_normalizeNumberString: "length (normalizeNumberString s) \<le> length s"
  by (simp add: normalizeNumberString_def length_strip_leading_zeros)

lemma handleEquals_justEvaluated:
  "previousValue s \<noteq> None \<Longrightarrow> truthy (operator s) \<Longrightarrow> justEvaluated (handleEquals s)"
  by (auto simp: handleEquals_def Let_def)

subsection \<open>Events in the Error state\<close>

lemma Error_digit:
  assumes "currentInput s = ''Error''" and "length d = 1" and "is_digit (hd d)"
  shows "currentInput (handleDigit d s) \<noteq> ''Error''"
proof (cases "justEvaluated s")
  case True
  then have "currentInput (handleDigit d s) = d" by (simp add: handleDigit_def)
  then show ?thesis using assms(2) by auto
next
  case False
  obtain c where d: "d = [c]" using assms(2) by (cases d) auto
  have "currentInput (handleDigit d s) = ''Error'' @ d"
    using False assms(1) d
    by (simp add: handleDigit_def clampLength_def normalizeNumberString_def strip_leading_zeros_def)
  then show ?thesis using d by simp
qed

lemma Error_dot:
  "currentInput s = ''Error'' \<Longrightarrow> currentInput (handleDot s) \<noteq> ''Error''"
  by (simp add: handleDot_def clampLength_def)

lemma Error_operator:
  "currentInput s = ''Error'' \<Longrightarrow> currentInput (handleOperator op s) = ''0''"
  by (auto simp: handleOperator_def inputToNumber_def StringToNumber_Error compute_NaN Let_def
      split: option.splits)

lemma Error_delete:
  "currentInput s = ''Error'' \<Longrightarrow> currentInput (handleDelete s) \<noteq> ''Error''"
  by (simp add: handleDelete_def normalizeNumberString_def strip_leading_zeros_def)

lemma Error_percent:
  "currentInput s = ''Error'' \<Longrightarrow> currentInput (handlePercent s) = ''NaN''"
  by (simp add: handlePercent_def inputToNumber_def StringToNumber_Error clampLength_def)

lemma Error_sign:
  "currentInput s = ''Error'' \<Longrightarrow> currentInput (handleSign s) = ''-Error''"
  by (simp add: handleSign_def)

subsection \<open>The pending operator\<close>

lemma step_operator_previous:
  "operator s \<noteq> None \<longrightarrow> previousValue s \<noteq> None \<Longrightarrow>
   operator (step e s) \<noteq> None \<longrightarrow> previousValue (step e s) \<noteq> None"
  by (cases e)
     (auto simp: handleDigit_def handleDot_def handleOperator_def handleEquals_def
        handleClear_def handleDelete_def handlePercent_def handleSign_def Let_def
        split: option.splits if_splits)

lemma run_snoc: "run (es @ [e]) s = step e (run es s)"
  by (simp add: run_def)

lemma reachable_run: "list_all valid_event es \<Longrightarrow> reachable (run es init)"
proof (induction es rule: rev_induct)
  case Nil
  show ?case by (simp add: run_def reachable_init)
next
  case (snoc e es)
  then have "reachable (run es init)" and "valid_event e" by simp_all
  then show ?case by (simp only: run_snoc reachable_step)
qed

subsection \<open>Repeated deletion\<close>

lemma handleDelete_shrinks:
  "currentInput (handleDelete s) = ''0''
   \<or> length (currentInput (handleDelete s)) < length (currentInput s)"
proof (cases "justEvaluated s \<or> length (currentInput s) \<le> 1")
  case True
  then show ?thesis by (auto simp: handleDelete_def normalizeNumberString_def)
next
  case False
  let ?c = "butlast (currentInput s)"
  let ?t = "if ?c \<noteq> [] \<and> last ?c = CHR ''.''
            then (if butlast ?c = [] then ''0'' else butlast ?c) else ?c"
  have eq: "currentInput (handleDelete s) = normalizeNumberString ?t"
    using False by (simp add: handleDelete_def Let_def)
  have "?t = ''0'' \<or> length ?t < length (currentInput s)"
    using False by auto
  then show ?thesis
  proof
    assume "?t = ''0''"
    then show ?thesis using eq by (simp add: normalizeNumberString_def)
  next
    assume "length ?t < length (currentInput s)"
    then show ?thesis
      using eq length_normalizeNumberString [of ?t] by simp
  qed
qed

lemma handleDelete_short:
  "length (currentInput s) \<le> 1 \<Longrightarrow> currentInput (handleDelete s) = ''0''"
  by (simp add: handleDelete_def normalizeNumberString_def)

lemma handleDelete_repeat:
  "length (currentInput s) \<le> Suc n \<Longrightarrow> currentInput ((handleDelete ^^ Suc n) s) = ''0''"
proof (induction n arbitrary: s)
  case 0
  then show ?case by (simp add: handleDelete_short)
next
  case (Suc n)
  have "length (currentInput (handleDelete s)) \<le> Suc n"
    using handleDelete_shrinks [of s] Suc.prems by auto
  then have "currentInput ((handleDelete ^^ Suc n) (handleDelete s)) = ''0''"
    by (rule Suc.IH)
  then show ?case by (simp only: funpow_Suc_right o_apply)
qed

subsection \<open>The handlers that keep the length cap\<close>

text \<open>
  All events but sign and equals keep \<open>currentInput\<close> within 14 characters: they write a
  fixed short string, clamp what they write, or shorten the input.
\<close>

lemma length_clampLength: "length (clampLength s n) \<le> n"
  by (simp add: clampLength_def)

lemma step_keeps_length_cap:
  assumes "valid_event e" and "e \<noteq> Sign" and "e \<noteq> Equals"
    and "length (currentInput s) \<le> 14"
  shows "length (currentInput (step e s)) \<le> 14"
proof (cases e)
  case (Digit d)
  have n: "length (normalizeNumberString (clampLength (currentInput s @ d) 14)) \<le> 14"
    using length_normalizeNumberString [of "clampLength (currentInput s @ d) 14"]
      length_clampLength [of "currentInput s @ d" 14] by linarith
  have m: "length (normalizeNumberString d) \<le> 14"
    using length_normalizeNumberString [of d] assms(1) Digit by simp
  show ?thesis using Digit assms(1) n m by (simp add: handleDigit_def)
next
  case Dot
  then show ?thesis
    using assms(4) length_clampLength [of "currentInput s @ ''.''" 14]
    by (simp add: handleDot_def)
next
  case (Operator op)
  then show ?thesis
    by (simp add: handleOperator_def Let_def split: option.splits)
next
  case Delete
  then show ?thesis
    using handleDelete_shrinks [of s] assms(4) by auto
next
  case Percent
  then show ?thesis by (simp add: handlePercent_def length_clampLength)
qed (use assms in \<open>simp_all add: handleClear_def\<close>)

section \<open>The claims\<close>

text \<open>
  C1. From the default state, the events 2, +, 3, *, 4, = leave \<open>currentInput\<close> equal to
  \<open>20\<close>: operators chain from left to right without precedence. The press of \<open>*\<close>
  first folds the pending \<open>2 + 3\<close> into \<open>previousValue\<close>, which is then 5 with \<open>*\<close>
  pending.
\<close>

theorem chained_operators:
  "currentInput (run [Digit ''2'', Operator ''+'', Digit ''3'', Operator ''*'', Digit ''4'',
       Equals] init) = ''20''
   \<and> previousValue (run [Digit ''2'', Operator ''+'', Digit ''3'', Operator ''*''] init)
       = Some (Finite False 5)
   \<and> operator (run [Digit ''2'', Operator ''+'', Digit ''3'', Operator ''*''] init) = Some ''*''"
  by code_simp

text \<open>
  C2. The claim is that \<open>currentInput\<close> never has more than 14 characters in a reachable
  state. \<open>handleDigit\<close>, \<open>handleDot\<close> and \<open>handlePercent\<close> clamp what they write, but
  \<open>handleSign\<close> and \<open>handleEquals\<close> do not: fourteen digits followed by the sign event
  give 15 characters, and so does the result of 10000 / 3.
\<close>

theorem length_cap_exceeded:
  "reachable (run [Digit ''1'', Digit ''1'', Digit ''1'', Digit ''1'', Digit ''1'', Digit ''1'', Digit ''1'', Digit ''1'', Digit ''1'', Digit ''1'', Digit ''1'', Digit ''1'', Digit ''1'', Digit ''1'', Sign] init)
   \<and> currentInput (run [Digit ''1'', Digit ''1'', Digit ''1'', Digit ''1'', Digit ''1'', Digit ''1'', Digit ''1'', Digit ''1'', Digit ''1'', Digit ''1'', Digit ''1'', Digit ''1'', Digit ''1'', Digit ''1'', Sign] init) = ''-11111111111111''
   \<and> length (currentInput (run [Digit ''1'', Digit ''1'', Digit ''1'', Digit ''1'', Digit ''1'', Digit ''1'', Digit ''1'', Digit ''1'', Digit ''1'', Digit ''1'', Digit ''1'', Digit ''1'', Digit ''1'', Digit ''1'', Sign] init)) = 15
   \<and> reachable (run [Digit ''1'', Digit ''0'', Digit ''0'', Digit ''0'', Digit ''0'',
        Operator ''/'', Digit ''3'', Equals] init)
   \<and> currentInput (run [Digit ''1'', Digit ''0'', Digit ''0'', Digit ''0'', Digit ''0'',
        Operator ''/'', Digit ''3'', Equals] init) = ''3333.3333333333''
   \<and> length (currentInput (run [Digit ''1'', Digit ''0'', Digit ''0'', Digit ''0'', Digit ''0'',
        Operator ''/'', Digit ''3'', Equals] init)) = 15"
proof -
  have r1: "reachable (run [Digit ''1'', Digit ''1'', Digit ''1'', Digit ''1'', Digit ''1'', Digit ''1'', Digit ''1'', Digit ''1'', Digit ''1'', Digit ''1'', Digit ''1'', Digit ''1'', Digit ''1'', Digit ''1'', Sign] init)"
    by (rule reachable_run) (simp add: is_digit_def)
  have r2: "reachable (run [Digit ''1'', Digit ''0'', Digit ''0'', Digit ''0'', Digit ''0'',
        Operator ''/'', Digit ''3'', Equals] init)"
    by (rule reachable_run) (simp add: is_digit_def)
  have c1: "currentInput (run [Digit ''1'', Digit ''1'', Digit ''1'', Digit ''1'', Digit ''1'', Digit ''1'', Digit ''1'', Digit ''1'', Digit ''1'', Digit ''1'', Digit ''1'', Digit ''1'', Digit ''1'', Digit ''1'', Sign] init) = ''-11111111111111''"
    by code_simp
  have c2: "currentInput (run [Digit ''1'', Digit ''0'', Digit ''0'', Digit ''0'', Digit ''0'',
        Operator ''/'', Digit ''3'', Equals] init) = ''3333.3333333333''"
    by code_simp
  show ?thesis using r1 r2 by (simp add: c1 c2)
qed

text \<open>
  C3. From the default state, the events 5, /, 0, = leave \<open>currentInput\<close> equal to
  \<open>Error\<close> with \<open>previousValue\<close> and \<open>operator\<close> cleared. \<open>compute\<close> signals the division
  by zero by returning \<open>None\<close> (\<^verbatim>\<open>null\<close>), and \<open>handleEquals\<close> turns that value into the
  Error display: the handler returns a state, nothing is raised.
\<close>

theorem division_by_zero:
  "run [Digit ''5'', Operator ''/'', Digit ''0'', Equals] init
     = \<lparr>currentInput = ''Error'', previousValue = None, operator = None, justEvaluated = True\<rparr>
   \<and> render (run [Digit ''5'', Operator ''/'', Digit ''0'', Equals] init) = ([], ''Error'')
   \<and> compute (StringToNumber ''5'') ''/'' (StringToNumber ''0'') = None"
  by code_simp

text \<open>
  C4, as amended. The claim is that in the Error state every event but clear leaves
  \<open>currentInput\<close> equal to \<open>Error\<close>. The handlers have no test for the Error state, and
  the opposite holds: whenever \<open>currentInput\<close> is \<open>Error\<close>, clear resets the state to the
  default one, equals changes nothing when no operation is pending, and every other
  event (digit, dot, operator, delete, percent, sign) is handled as usual and leaves
  \<open>currentInput\<close> different from \<open>Error\<close>.
\<close>

theorem Error_state_exits:
  assumes "currentInput s = ''Error''" and "valid_event e"
  shows "handleClear s = init
    \<and> (previousValue s = None \<or> \<not> truthy (operator s) \<longrightarrow> handleEquals s = s)
    \<and> (e \<noteq> Equals \<longrightarrow> currentInput (step e s) \<noteq> ''Error'')"
proof -
  have c: "handleClear s = init" by (simp add: handleClear_def init_def)
  have q: "previousValue s = None \<or> \<not> truthy (operator s) \<longrightarrow> handleEquals s = s"
    by (simp add: handleEquals_def)
  have e: "currentInput (step e s) \<noteq> ''Error''" if "e \<noteq> Equals"
    using that assms
    by (cases e)
       (simp_all add: Error_digit Error_dot Error_operator Error_delete Error_percent Error_sign
          handleClear_def)
  show ?thesis using c q e by blast
qed

theorem Error_state_exits_witness:
  "currentInput \<lparr>currentInput = ''Error'', previousValue = None, operator = None,
       justEvaluated = True\<rparr> = ''Error''
   \<and> valid_event (Digit ''7'')
   \<and> handleClear \<lparr>currentInput = ''Error'', previousValue = None, operator = None,
       justEvaluated = True\<rparr> = init
   \<and> handleEquals \<lparr>currentInput = ''Error'', previousValue = None, operator = None,
       justEvaluated = True\<rparr>
       = \<lparr>currentInput = ''Error'', previousValue = None, operator = None, justEvaluated = True\<rparr>
   \<and> currentInput (step (Digit ''7'') \<lparr>currentInput = ''Error'', previousValue = None,
       operator = None, justEvaluated = True\<rparr>) \<noteq> ''Error''"
  using Error_state_exits [of "\<lparr>currentInput = ''Error'', previousValue = None,
       operator = None, justEvaluated = True\<rparr>" "Digit ''7''"]
  by (simp add: is_digit_def)

text \<open>
  The claim C4 as it was stated fails: after 5, /, 0, = the display is \<open>Error\<close>, and the
  digit 7 replaces it by \<open>7\<close>.
\<close>

theorem Error_state_counterexample:
  "currentInput (run [Digit ''5'', Operator ''/'', Digit ''0'', Equals] init) = ''Error''
   \<and> currentInput (step (Digit ''7'')
        (run [Digit ''5'', Operator ''/'', Digit ''0'', Equals] init)) = ''7''"
  by code_simp

text \<open>
  C5. In every state reachable from the default state, a pending operator comes with a
  pending operand: if \<open>operator\<close> is set then \<open>previousValue\<close> is set.
\<close>

theorem operator_needs_previousValue:
  "reachable s \<Longrightarrow> operator s \<noteq> None \<Longrightarrow> previousValue s \<noteq> None"
proof (induction rule: reachable.induct)
  case reachable_init
  then show ?case by (simp add: init_def)
next
  case (reachable_step s e)
  then show ?case using step_operator_previous [of s e] by blast
qed

theorem operator_needs_previousValue_witness:
  "reachable (step (Operator ''+'') init) \<and> operator (step (Operator ''+'') init) \<noteq> None
   \<and> previousValue (step (Operator ''+'') init) \<noteq> None"
proof -
  have r: "reachable (step (Operator ''+'') init)"
    by (rule reachable_step [OF reachable_init]) simp
  have o: "operator (step (Operator ''+'') init) \<noteq> None"
    by (simp add: handleOperator_def init_def Let_def)
  show ?thesis using r o operator_needs_previousValue [OF r o] by simp
qed

text \<open>
  C6. The claim is that \<open>currentInput\<close> never starts with a redundant zero in a reachable
  state. \<open>normalizeNumberString\<close> removes leading zeros only at the very start of the
  string, so a zero behind a minus sign stays, and \<open>handleSign\<close> removes the minus sign
  without normalising: the events dot, sign, delete, 5, sign leave \<open>05\<close>.
\<close>

theorem leading_zero_after_sign:
  "reachable (run [Dot, Sign, Delete, Digit ''5'', Sign] init)
   \<and> currentInput (run [Dot, Sign, Delete, Digit ''5''] init) = ''-05''
   \<and> currentInput (run [Dot, Sign, Delete, Digit ''5'', Sign] init) = ''05''"
proof -
  have r: "reachable (run [Dot, Sign, Delete, Digit ''5'', Sign] init)"
    by (rule reachable_run) (simp add: is_digit_def)
  have a: "currentInput (run [Dot, Sign, Delete, Digit ''5''] init) = ''-05''"
    by code_simp
  have b: "currentInput (run [Dot, Sign, Delete, Digit ''5'', Sign] init) = ''05''"
    by code_simp
  show ?thesis using r a b by blast
qed

text \<open>
  C7, as amended. For every state with \<open>justEvaluated\<close> false, delete removes the last
  character of \<open>currentInput\<close>, an input of at most one character becomes \<open>0\<close>, a decimal
  point left at the end is removed too (with \<open>0\<close> for an empty rest), and the result is
  then normalised by \<open>normalizeNumberString\<close>, which strips redundant leading zeros. In
  particular delete on \<open>12.\<close> gives \<open>12\<close>, and one more delete than \<open>currentInput\<close> has
  characters gives \<open>0\<close>.
\<close>

theorem handleDelete_removes_last:
  "\<not> justEvaluated s \<Longrightarrow>
     handleDelete s =
       s\<lparr>currentInput :=
           normalizeNumberString
             (if length (currentInput s) \<le> 1 then ''0'' else spec_delete (currentInput s))\<rparr>
     \<and> currentInput (handleDelete (s\<lparr>currentInput := ''12.''\<rparr>)) = ''12''
     \<and> currentInput ((handleDelete ^^ Suc (length (currentInput s))) s) = ''0''"
proof -
  assume j: "\<not> justEvaluated s"
  have a: "handleDelete s =
       s\<lparr>currentInput :=
           normalizeNumberString
             (if length (currentInput s) \<le> 1 then ''0'' else spec_delete (currentInput s))\<rparr>"
    using j by (simp add: handleDelete_def spec_delete_def Let_def)
  have b: "currentInput (handleDelete (s\<lparr>currentInput := ''12.''\<rparr>)) = ''12''"
    using j by (simp add: handleDelete_def normalizeNumberString_def strip_leading_zeros_def)
  have c: "currentInput ((handleDelete ^^ Suc (length (currentInput s))) s) = ''0''"
    by (rule handleDelete_repeat) simp
  show ?thesis using a b c by blast
qed

theorem handleDelete_removes_last_witness:
  "\<not> justEvaluated \<lparr>currentInput = ''1.5'', previousValue = None, operator = None,
       justEvaluated = False\<rparr>
   \<and> handleDelete \<lparr>currentInput = ''1.5'', previousValue = None, operator = None,
       justEvaluated = False\<rparr>
       = \<lparr>currentInput = ''1'', previousValue = None, operator = None, justEvaluated = False\<rparr>"
  using handleDelete_removes_last [of "\<lparr>currentInput = ''1.5'', previousValue = None,
       operator = None, justEvaluated = False\<rparr>"]
  by (simp add: spec_delete_def normalizeNumberString_def strip_leading_zeros_def)

text \<open>
  The claim C7 as it was stated, without the normalisation, fails: the events dot, sign,
  delete, 0, 5, sign reach \<open>005\<close> with \<open>justEvaluated\<close> false; removing the last character
  would leave \<open>00\<close>, and \<open>handleDelete\<close> leaves \<open>0\<close>.
\<close>

theorem handleDelete_counterexample:
  "\<not> justEvaluated (run [Dot, Sign, Delete, Digit ''0'', Digit ''5'', Sign] init)
   \<and> currentInput (run [Dot, Sign, Delete, Digit ''0'', Digit ''5'', Sign] init) = ''005''
   \<and> currentInput (handleDelete (run [Dot, Sign, Delete, Digit ''0'', Digit ''5'', Sign] init))
       = ''0''
   \<and> spec_delete ''005'' = ''00''"
  by code_simp

text \<open>
  C8. From the default state, entering 0.1 (dot, 1), then +, then 0.2 (dot, 2), then =
  leaves \<open>currentInput\<close> equal to \<open>0.3\<close>. The sum itself is the binary64 value that
  \<^verbatim>\<open>String\<close> writes as \<open>0.30000000000000004\<close>; writing it with ten decimals and reading it
  back removes the artifact.
\<close>

theorem rounding_hides_artifacts:
  "currentInput (run [Dot, Digit ''1'', Operator ''+'', Dot, Digit ''2'', Equals] init) = ''0.3''
   \<and> NumberToString (js_add (StringToNumber ''0.1'') (StringToNumber ''0.2''))
       = ''0.30000000000000004''"
  by code_simp

text \<open>
  C9, as amended. From any state with \<open>previousValue\<close> set, an operator pending,
  \<open>justEvaluated\<close> false and \<open>currentInput\<close> equal to \<open>0\<close> (the state right after an operator
  press), a second operator press applies the pending operator with 0 as the second
  operand: when \<open>compute\<close> signals a division by zero the Error state is entered, and
  otherwise \<open>previousValue\<close> becomes the result of \<open>compute\<close> rounded to ten decimals
  (\<^verbatim>\<open>+result.toFixed(10)\<close>) and the new operator is pending. So 5, *, + makes
  \<open>previousValue\<close> 0, and 5, /, / enters the Error state.
\<close>

theorem operator_twice:
  assumes "previousValue s = Some a" and "operator s = Some op" and "op \<noteq> []"
    and "\<not> justEvaluated s" and "currentInput s = ''0''"
  shows "handleOperator op2 s =
      (case compute a op (Finite False 0) of
         None \<Rightarrow> s\<lparr>currentInput := ''Error'', previousValue := None, operator := None\<rparr>
       | Some r \<Rightarrow> s\<lparr>previousValue := Some (round10 r), operator := Some op2,
                      currentInput := ''0'', justEvaluated := False\<rparr>)
    \<and> previousValue (run [Digit ''5'', Operator ''*'', Operator ''+''] init)
        = Some (Finite False 0)
    \<and> currentInput (run [Digit ''5'', Operator ''/'', Operator ''/''] init) = ''Error''"
proof -
  have g: "handleOperator op2 s =
      (case compute a op (Finite False 0) of
         None \<Rightarrow> s\<lparr>currentInput := ''Error'', previousValue := None, operator := None\<rparr>
       | Some r \<Rightarrow> s\<lparr>previousValue := Some (round10 r), operator := Some op2,
                      currentInput := ''0'', justEvaluated := False\<rparr>)"
    using assms
    by (simp add: handleOperator_def inputToNumber_def StringToNumber_zero truthy_def Let_def
        split: option.splits)
  have m: "previousValue (run [Digit ''5'', Operator ''*'', Operator ''+''] init)
        = Some (Finite False 0)"
    by code_simp
  have d: "currentInput (run [Digit ''5'', Operator ''/'', Operator ''/''] init) = ''Error''"
    by code_simp
  show ?thesis using g m d by blast
qed

theorem operator_twice_witness:
  "previousValue \<lparr>currentInput = ''0'', previousValue = Some (Finite False 5),
       operator = Some ''/'', justEvaluated = False\<rparr> = Some (Finite False 5)
   \<and> operator \<lparr>currentInput = ''0'', previousValue = Some (Finite False 5),
       operator = Some ''/'', justEvaluated = False\<rparr> = Some ''/''
   \<and> ''/'' \<noteq> []
   \<and> \<not> justEvaluated \<lparr>currentInput = ''0'', previousValue = Some (Finite False 5),
       operator = Some ''/'', justEvaluated = False\<rparr>
   \<and> currentInput \<lparr>currentInput = ''0'', previousValue = Some (Finite False 5),
       operator = Some ''/'', justEvaluated = False\<rparr> = ''0''
   \<and> handleOperator ''+'' \<lparr>currentInput = ''0'', previousValue = Some (Finite False 5),
       operator = Some ''/'', justEvaluated = False\<rparr>
       = \<lparr>currentInput = ''Error'', previousValue = None, operator = None,
          justEvaluated = False\<rparr>"
  using operator_twice [of "\<lparr>currentInput = ''0'', previousValue = Some (Finite False 5),
       operator = Some ''/'', justEvaluated = False\<rparr>" "Finite False 5" "''/''" "''+''"]
  by (simp add: compute_def)

text \<open>
  The claim C9 as it was stated, with \<open>previousValue\<close> set to the result of \<open>compute\<close>
  itself, fails: after 0.00000000001 and + the pending value is the binary64 value of
  that literal, adding 0 to it gives the same value, and a second + stores 0, since the
  value has no non-zero digit among its first ten decimals.
\<close>

theorem operator_twice_counterexample:
  "previousValue (run [Dot, Digit ''0'', Digit ''0'', Digit ''0'', Digit ''0'', Digit ''0'', Digit ''0'', Digit ''0'', Digit ''0'', Digit ''0'', Digit ''0'', Digit ''1'', Operator ''+''] init) = Some (StringToNumber ''0.00000000001'')
   \<and> operator (run [Dot, Digit ''0'', Digit ''0'', Digit ''0'', Digit ''0'', Digit ''0'', Digit ''0'', Digit ''0'', Digit ''0'', Digit ''0'', Digit ''0'', Digit ''1'', Operator ''+''] init) = Some ''+''
   \<and> \<not> justEvaluated (run [Dot, Digit ''0'', Digit ''0'', Digit ''0'', Digit ''0'', Digit ''0'', Digit ''0'', Digit ''0'', Digit ''0'', Digit ''0'', Digit ''0'', Digit ''1'', Operator ''+''] init)
   \<and> currentInput (run [Dot, Digit ''0'', Digit ''0'', Digit ''0'', Digit ''0'', Digit ''0'', Digit ''0'', Digit ''0'', Digit ''0'', Digit ''0'', Digit ''0'', Digit ''1'', Operator ''+''] init) = ''0''
   \<and> compute (StringToNumber ''0.00000000001'') ''+'' (StringToNumber ''0'')
       = Some (StringToNumber ''0.00000000001'')
   \<and> StringToNumber ''0.00000000001'' \<noteq> Finite False 0
   \<and> previousValue (handleOperator ''+'' (run [Dot, Digit ''0'', Digit ''0'', Digit ''0'', Digit ''0'', Digit ''0'', Digit ''0'', Digit ''0'', Digit ''0'', Digit ''0'', Digit ''0'', Digit ''1'', Operator ''+''] init)) = Some (Finite False 0)"
  by code_simp

text \<open>
  C10. For every state, percent and sign change \<open>currentInput\<close> only: \<open>previousValue\<close>,
  \<open>operator\<close> and \<open>justEvaluated\<close> stay as they are. So right after an equals that
  evaluated a pending operation, \<open>justEvaluated\<close> is still set after percent or sign,
  and a digit then starts a fresh input: the adjusted value is discarded.
\<close>

theorem percent_sign_frame:
  "handlePercent s = s\<lparr>currentInput := currentInput (handlePercent s)\<rparr>
   \<and> handleSign s = s\<lparr>currentInput := currentInput (handleSign s)\<rparr>
   \<and> (previousValue s \<noteq> None \<and> truthy (operator s) \<longrightarrow>
        justEvaluated (handlePercent (handleEquals s))
        \<and> justEvaluated (handleSign (handleEquals s))
        \<and> currentInput (handleDigit d (handlePercent (handleEquals s))) = d
        \<and> currentInput (handleDigit d (handleSign (handleEquals s))) = d)"
proof -
  have p: "handlePercent t = t\<lparr>currentInput := currentInput (handlePercent t)\<rparr>" for t
    by (simp add: handlePercent_def)
  have g: "handleSign t = t\<lparr>currentInput := currentInput (handleSign t)\<rparr>" for t
    by (simp add: handleSign_def)
  have jp: "justEvaluated (handlePercent t) = justEvaluated t" for t
    by (simp add: handlePercent_def)
  have jg: "justEvaluated (handleSign t) = justEvaluated t" for t
    by (simp add: handleSign_def)
  have d: "justEvaluated t \<Longrightarrow> currentInput (handleDigit d t) = d" for t
    by (simp add: handleDigit_def)
  show ?thesis
    using p [of s] g [of s] by (auto simp: jp jg d handleEquals_justEvaluated)
qed

theorem percent_sign_frame_witness:
  "previousValue \<lparr>currentInput = ''8'', previousValue = Some (Finite False 2),
       operator = Some ''*'', justEvaluated = False\<rparr> \<noteq> None
   \<and> truthy (operator \<lparr>currentInput = ''8'', previousValue = Some (Finite False 2),
       operator = Some ''*'', justEvaluated = False\<rparr>)
   \<and> currentInput (handleDigit ''7'' (handlePercent (handleEquals
        \<lparr>currentInput = ''8'', previousValue = Some (Finite False 2),
         operator = Some ''*'', justEvaluated = False\<rparr>))) = ''7''"
  using percent_sign_frame [of "\<lparr>currentInput = ''8'', previousValue = Some (Finite False 2),
         operator = Some ''*'', justEvaluated = False\<rparr>" "''7''"]
  by (simp add: truthy_def)

end
